theory Spec2Isabelle
  imports Complex_Main "HOL-Library.Multiset"
begin

section \<open>Tensors\<close>

text \<open>
  A tensor is its shape together with its elements in row-major (contiguous) order, the
  layout of a freshly produced \<^verbatim>\<open>torch.Tensor\<close>. Element values are idealised as real
  numbers: rounding, infinities and NaN of the floating-point types are not modelled.
\<close>

record tensor =
  shape :: "nat list"
  data :: "real list"

definition numel :: "tensor \<Rightarrow> nat" where
  "numel t = prod_list (shape t)"

definition contiguous :: "tensor \<Rightarrow> bool" where
  "contiguous t = (length (data t) = numel t)"

text \<open>Element access by multi-index, for ranks 1, 3 and 4.\<close>

definition at1 :: "tensor \<Rightarrow> nat \<Rightarrow> real" where
  "at1 t i = data t ! i"

definition at3 :: "tensor \<Rightarrow> nat \<Rightarrow> nat \<Rightarrow> nat \<Rightarrow> real" where
  "at3 t b i c = data t ! ((b * (shape t ! 1) + i) * (shape t ! 2) + c)"

definition at4 :: "tensor \<Rightarrow> nat \<Rightarrow> nat \<Rightarrow> nat \<Rightarrow> nat \<Rightarrow> real" where
  "at4 t b c i j =
     data t ! (((b * (shape t ! 1) + c) * (shape t ! 2) + i) * (shape t ! 3) + j)"

text \<open>A fresh tensor of a given shape, filled from a function of the multi-index.\<close>

definition tabulate1 :: "nat \<Rightarrow> (nat \<Rightarrow> real) \<Rightarrow> tensor" where
  "tabulate1 n f = \<lparr>shape = [n], data = map f [0..<n]\<rparr>"

definition tabulate4 ::
  "nat \<Rightarrow> nat \<Rightarrow> nat \<Rightarrow> nat \<Rightarrow> (nat \<Rightarrow> nat \<Rightarrow> nat \<Rightarrow> nat \<Rightarrow> real) \<Rightarrow> tensor" where
  "tabulate4 B C H W f =
     \<lparr>shape = [B, C, H, W],
      data = map (\<lambda>k. f (k div (C * H * W)) (k div (H * W) mod C) (k div W mod H) (k mod W))
               [0..<B * C * H * W]\<rparr>"

section \<open>Errors\<close>

text \<open>
  The source raises nothing itself; every failure of a constructor or of a forward pass
  is the exception of a library call (or, in \<^verbatim>\<open>CNNDecoder.forward\<close>, of the tuple
  unpacking). One constructor per failing check.
\<close>

datatype error =
    UnpackError
  | ViewSizeMismatch
  | PermuteRankMismatch
  | ConvRankMismatch
  | ConvChannelMismatch
  | ConvKernelTooLarge
  | UpsampleRankMismatch
  | UpsampleEmptyInput
  | ZeroDivisionError
  | EmbedDimNotDivisible
  | IndexError
  | RankNotModelled
  | LinearShapeMismatch
  | LayerNormShapeMismatch
  | AddShapeMismatch
  | EmbedDimMismatch
  | KeyShapeMismatch
  | AttnMaskShapeMismatch
  | KeyPaddingMaskShapeMismatch

definition bind_result :: "error + 'a \<Rightarrow> ('a \<Rightarrow> error + 'b) \<Rightarrow> error + 'b" where
  "bind_result r f = (case r of Inl e \<Rightarrow> Inl e | Inr v \<Rightarrow> f v)"

section \<open>The tensor operations the decoder calls\<close>

text \<open>
  \<^verbatim>\<open>Tensor.view(*sizes)\<close> on a contiguous tensor: the same elements under a new shape;
  it raises when the new shape has a different number of elements. (The sizes passed by
  \<^verbatim>\<open>forward\<close> are natural numbers, so the inferred dimension \<^verbatim>\<open>-1\<close> does not arise.)
\<close>

definition view :: "tensor \<Rightarrow> nat list \<Rightarrow> error + tensor" where
  "view t sizes =
     (if prod_list sizes = numel t then Inr (t\<lparr>shape := sizes\<rparr>) else Inl ViewSizeMismatch)"

text \<open>
  \<^verbatim>\<open>x.permute(0, 3, 1, 2)\<close>: output axis 1 is input axis 3, output axes 2 and 3 are input
  axes 1 and 2. The result is written out in row-major order of the new shape.
\<close>

definition permute_0312 :: "tensor \<Rightarrow> error + tensor" where
  "permute_0312 x =
     (case shape x of
        [B, H, W, C] \<Rightarrow> Inr (tabulate4 B C H W (\<lambda>b c i j. at4 x b i j c))
      | _ \<Rightarrow> Inl PermuteRankMismatch)"

text \<open>
  \<^verbatim>\<open>nn.Conv2d(in_channels, out_channels, kernel_size, padding)\<close> with the defaults
  stride 1, dilation 1, groups 1, zero padding, and a bias. The weight has shape
  \<open>(out_channels, in_channels, kernel_size, kernel_size)\<close>, the bias \<open>(out_channels)\<close>.
\<close>

record conv2d =
  in_channels :: nat
  out_channels :: nat
  kernel_size :: nat
  padding :: nat
  weight :: tensor
  bias :: tensor

text \<open>The input read at a position of the zero-padded plane.\<close>

definition padded :: "tensor \<Rightarrow> nat \<Rightarrow> nat \<Rightarrow> nat \<Rightarrow> nat \<Rightarrow> nat \<Rightarrow> real" where
  "padded x p b c r s =
     (if p \<le> r \<and> r < p + shape x ! 2 \<and> p \<le> s \<and> s < p + shape x ! 3
      then at4 x b c (r - p) (s - p) else 0)"

definition conv2d_forward :: "conv2d \<Rightarrow> tensor \<Rightarrow> error + tensor" where
  "conv2d_forward m x =
     (case shape x of
        [B, C, H, W] \<Rightarrow>
          if C \<noteq> in_channels m then Inl ConvChannelMismatch
          else if H + 2 * padding m < kernel_size m \<or> W + 2 * padding m < kernel_size m
          then Inl ConvKernelTooLarge
          else Inr (tabulate4 B (out_channels m)
                 (H + 2 * padding m - kernel_size m + 1)
                 (W + 2 * padding m - kernel_size m + 1)
                 (\<lambda>b oc i j. at1 (bias m) oc +
                    (\<Sum>ic\<leftarrow>[0..<C]. \<Sum>di\<leftarrow>[0..<kernel_size m]. \<Sum>dj\<leftarrow>[0..<kernel_size m].
                       at4 (weight m) oc ic di dj * padded x (padding m) b ic (i + di) (j + dj))))
      | _ \<Rightarrow> Inl ConvRankMismatch)"

text \<open>
  \<^verbatim>\<open>nn.ReLU(inplace=True)\<close>: every element \<open>v\<close> becomes \<open>max 0 v\<close>. The tensor it
  overwrites is the convolution's fresh output, which nothing else refers to, so the
  in-place update is the same as returning the new tensor.
\<close>

definition relu :: "tensor \<Rightarrow> tensor" where
  "relu x = x\<lparr>data := map (max 0) (data x)\<rparr>"

text \<open>
  \<^verbatim>\<open>nn.Upsample(scale_factor, mode='nearest')\<close> on a 4-D input with an integer scale
  factor: each spatial size is multiplied by the factor and output position \<open>(i, j)\<close>
  copies input position \<open>(i div scale, j div scale)\<close>. The interpolation rejects an input
  whose channel or spatial sizes are zero (an empty batch is accepted).
\<close>

definition upsample_nearest :: "nat \<Rightarrow> tensor \<Rightarrow> error + tensor" where
  "upsample_nearest scale x =
     (case shape x of
        [B, C, H, W] \<Rightarrow>
          if C * H * W = 0 then Inl UpsampleEmptyInput
          else Inr (tabulate4 B C (H * scale) (W * scale)
                 (\<lambda>b c i j. at4 x b c (i div scale) (j div scale)))
      | _ \<Rightarrow> Inl UpsampleRankMismatch)"

section \<open>Modules and \<^verbatim>\<open>nn.Sequential\<close>\<close>

datatype upsample_mode = Nearest

datatype module =
    Conv2d conv2d
  | ReLU
  | Upsample nat upsample_mode

fun module_forward :: "module \<Rightarrow> tensor \<Rightarrow> error + tensor" where
  "module_forward (Conv2d m) x = conv2d_forward m x"
| "module_forward ReLU x = Inr (relu x)"
| "module_forward (Upsample scale Nearest) x = upsample_nearest scale x"

text \<open>\<^verbatim>\<open>nn.Sequential\<close> feeds each module's output to the next, in list order.\<close>

fun Sequential_forward :: "module list \<Rightarrow> tensor \<Rightarrow> error + tensor" where
  "Sequential_forward [] x = Inr x"
| "Sequential_forward (m # ms) x = bind_result (module_forward m x) (Sequential_forward ms)"

section \<open>\<^verbatim>\<open>CNNDecoder\<close>\<close>

text \<open>
  The initial values of a convolution's weight and bias are drawn at random by the
  library; they are a parameter here, given as functions of the element's index, so that
  the allocated tensors have the shapes the constructor fixes.
\<close>

record initial_values =
  weight_init :: "nat \<Rightarrow> nat \<Rightarrow> nat \<Rightarrow> nat \<Rightarrow> real"
  bias_init :: "nat \<Rightarrow> real"

definition nn_Conv2d :: "nat \<Rightarrow> nat \<Rightarrow> nat \<Rightarrow> nat \<Rightarrow> initial_values \<Rightarrow> module" where
  "nn_Conv2d cin cout k p v =
     Conv2d \<lparr>in_channels = cin, out_channels = cout, kernel_size = k, padding = p,
             weight = tabulate4 cout cin k k (weight_init v),
             bias = tabulate1 cout (bias_init v)\<rparr>"

record CNNDecoder =
  img_height :: nat
  img_width :: nat
  grid_h :: nat
  grid_w :: nat
  layer1 :: "module list"
  layer2 :: "module list"
  layer3 :: "module list"

text \<open>
  \<^verbatim>\<open>CNNDecoder.__init__(embed_dim, img_height, img_width)\<close>. The three sizes are natural
  numbers (a channel count and an image size in pixels), on which Python's \<^verbatim>\<open>//\<close> is
  \<open>div\<close>. The constructor has no \<^verbatim>\<open>raise\<close> and no check: it is a total function.
\<close>

definition CNNDecoder_init ::
  "nat \<Rightarrow> nat \<Rightarrow> nat \<Rightarrow> initial_values \<Rightarrow> initial_values \<Rightarrow> initial_values \<Rightarrow> CNNDecoder" where
  "CNNDecoder_init embed_dim img_h img_w v1 v2 v3 =
     \<lparr>img_height = img_h,
      img_width = img_w,
      grid_h = img_h div 8,
      grid_w = img_w div 8,
      layer1 = [nn_Conv2d embed_dim embed_dim 3 1 v1, ReLU, Upsample 2 Nearest],
      layer2 = [nn_Conv2d embed_dim embed_dim 3 1 v2, ReLU, Upsample 2 Nearest],
      layer3 = [nn_Conv2d embed_dim 3 3 1 v3, ReLU, Upsample 2 Nearest]\<rparr>"

text \<open>
  \<^verbatim>\<open>CNNDecoder.forward(x)\<close>: unpack the three sizes of \<open>x\<close>, view it as
  \<open>(batch, grid_h, grid_w, C)\<close>, permute to channel-first, then run the three layers.
\<close>

definition forward :: "CNNDecoder \<Rightarrow> tensor \<Rightarrow> error + tensor" where
  "forward self x =
     (case shape x of
        [batch_size, num_tokens, channels] \<Rightarrow>
          bind_result (view x [batch_size, grid_h self, grid_w self, channels]) (\<lambda>x.
          bind_result (permute_0312 x) (\<lambda>x.
          bind_result (Sequential_forward (layer1 self) x) (\<lambda>x.
          bind_result (Sequential_forward (layer2 self) x) (\<lambda>x.
          Sequential_forward (layer3 self) x))))
      | _ \<Rightarrow> Inl UnpackError)"

text \<open>Example initial values: every weight element \<open>w\<close>, every bias element \<open>b\<close>.\<close>

definition constant_values :: "real \<Rightarrow> real \<Rightarrow> initial_values" where
  "constant_values w b = \<lparr>weight_init = (\<lambda>oc ic i j. w), bias_init = (\<lambda>oc. b)\<rparr>"

text \<open>Example input: a tensor of a given shape with every element \<open>v\<close>.\<close>

definition full :: "nat list \<Rightarrow> real \<Rightarrow> tensor" where
  "full sizes v = \<lparr>shape = sizes, data = replicate (prod_list sizes) v\<rparr>"

section \<open>Storage, views and the in-place nonlinearity\<close>















section \<open>The tensor operations of the attention decoder\<close>

text \<open>
  Only batched inputs are modelled: a target and a memory of rank 3, batch first. (The
  library also accepts a single unbatched sequence of rank 2; for any rank other than 3
  the operations below return \<open>RankNotModelled\<close>.)
\<close>

definition at2 :: "tensor \<Rightarrow> nat \<Rightarrow> nat \<Rightarrow> real" where
  "at2 t i j = data t ! (i * (shape t ! 1) + j)"

definition tabulate2 :: "nat \<Rightarrow> nat \<Rightarrow> (nat \<Rightarrow> nat \<Rightarrow> real) \<Rightarrow> tensor" where
  "tabulate2 R C f = \<lparr>shape = [R, C], data = map (\<lambda>k. f (k div C) (k mod C)) [0..<R * C]\<rparr>"

definition tabulate3 :: "nat \<Rightarrow> nat \<Rightarrow> nat \<Rightarrow> (nat \<Rightarrow> nat \<Rightarrow> nat \<Rightarrow> real) \<Rightarrow> tensor" where
  "tabulate3 B T E f =
     \<lparr>shape = [B, T, E],
      data = map (\<lambda>k. f (k div (T * E)) (k div E mod T) (k mod E)) [0..<B * T * E]\<rparr>"

text \<open>
  Attention masks. A float mask is added to the attention scores and may hold \<open>-\<infinity>\<close>; a
  boolean mask is converted by the library to the float mask that is \<open>-\<infinity>\<close> where the
  boolean mask is true and 0 elsewhere. A mask is therefore a tensor of reals extended
  by \<open>-\<infinity>\<close>.
\<close>

datatype extended = MinusInfinity | Finite real

record mask =
  mask_shape :: "nat list"
  mask_data :: "extended list"

definition mask_at2 :: "mask \<Rightarrow> nat \<Rightarrow> nat \<Rightarrow> extended" where
  "mask_at2 m i j = mask_data m ! (i * (mask_shape m ! 1) + j)"

definition mask_at3 :: "mask \<Rightarrow> nat \<Rightarrow> nat \<Rightarrow> nat \<Rightarrow> extended" where
  "mask_at3 m b i j = mask_data m ! ((b * (mask_shape m ! 1) + i) * (mask_shape m ! 2) + j)"

fun add_extended :: "extended \<Rightarrow> extended \<Rightarrow> extended" where
  "add_extended (Finite a) (Finite b) = Finite (a + b)"
| "add_extended _ _ = MinusInfinity"

fun exp_extended :: "extended \<Rightarrow> real" where
  "exp_extended MinusInfinity = 0"
| "exp_extended (Finite a) = exp a"

text \<open>
  \<^verbatim>\<open>nn.Linear(in_features, out_features)\<close>, applied to the last axis: the weight has shape
  \<open>(out_features, in_features)\<close>, the bias \<open>(out_features)\<close>.
\<close>

record linear =
  in_features :: nat
  out_features :: nat
  linear_weight :: tensor
  linear_bias :: tensor

definition linear_forward :: "linear \<Rightarrow> tensor \<Rightarrow> error + tensor" where
  "linear_forward m x =
     (case shape x of
        [B, T, E] \<Rightarrow>
          if E \<noteq> in_features m then Inl LinearShapeMismatch
          else Inr (tabulate3 B T (out_features m)
                 (\<lambda>b t oc. at1 (linear_bias m) oc +
                    (\<Sum>e\<leftarrow>[0..<E]. at2 (linear_weight m) oc e * at3 x b t e)))
      | _ \<Rightarrow> Inl RankNotModelled)"

text \<open>
  \<^verbatim>\<open>nn.LayerNorm(normalized_shape)\<close> over the last axis: each row is shifted by its mean,
  divided by the square root of its (biased) variance plus \<open>eps\<close>, then scaled and shifted
  elementwise by the weight and the bias.
\<close>

record layer_norm =
  normalized_shape :: nat
  norm_weight :: tensor
  norm_bias :: tensor
  eps :: real

definition row_mean :: "tensor \<Rightarrow> nat \<Rightarrow> nat \<Rightarrow> real" where
  "row_mean x b t = (\<Sum>e\<leftarrow>[0..<shape x ! 2]. at3 x b t e) / real (shape x ! 2)"

definition row_variance :: "tensor \<Rightarrow> nat \<Rightarrow> nat \<Rightarrow> real" where
  "row_variance x b t =
     (\<Sum>e\<leftarrow>[0..<shape x ! 2]. (at3 x b t e - row_mean x b t)\<^sup>2) / real (shape x ! 2)"

definition layer_norm_forward :: "layer_norm \<Rightarrow> tensor \<Rightarrow> error + tensor" where
  "layer_norm_forward m x =
     (case shape x of
        [B, T, E] \<Rightarrow>
          if E \<noteq> normalized_shape m then Inl LayerNormShapeMismatch
          else Inr (tabulate3 B T E
                 (\<lambda>b t e. (at3 x b t e - row_mean x b t) / sqrt (row_variance x b t + eps m)
                            * at1 (norm_weight m) e + at1 (norm_bias m) e))
      | _ \<Rightarrow> Inl RankNotModelled)"

text \<open>The residual sum \<^verbatim>\<open>x + y\<close> of two tensors of the same shape.\<close>

definition add :: "tensor \<Rightarrow> tensor \<Rightarrow> error + tensor" where
  "add x y =
     (case shape x of
        [B, T, E] \<Rightarrow>
          if shape y \<noteq> shape x then Inl AddShapeMismatch
          else Inr (tabulate3 B T E (\<lambda>b t e. at3 x b t e + at3 y b t e))
      | _ \<Rightarrow> Inl RankNotModelled)"

text \<open>
  \<^verbatim>\<open>nn.MultiheadAttention(embed_dim, num_heads, batch_first=True)\<close>. The packed input
  projection has weight \<open>(3 * embed_dim, embed_dim)\<close> and bias \<open>(3 * embed_dim)\<close>: rows
  \<open>0 \<dots> embed_dim - 1\<close> project the query, the next \<open>embed_dim\<close> rows the key, the last
  \<open>embed_dim\<close> rows the value. Head \<open>h\<close> owns the columns
  \<open>h * head_dim \<dots> (h + 1) * head_dim - 1\<close> of the projections.
\<close>

record multihead_attention =
  mha_embed_dim :: nat
  mha_num_heads :: nat
  in_proj_weight :: tensor
  in_proj_bias :: tensor
  out_proj :: linear

definition head_dim :: "multihead_attention \<Rightarrow> nat" where
  "head_dim m = mha_embed_dim m div mha_num_heads m"

definition in_projection ::
  "multihead_attention \<Rightarrow> nat \<Rightarrow> tensor \<Rightarrow> nat \<Rightarrow> nat \<Rightarrow> nat \<Rightarrow> real" where
  "in_projection m part x b t e =
     at1 (in_proj_bias m) (part * mha_embed_dim m + e)
     + (\<Sum>e'\<leftarrow>[0..<mha_embed_dim m].
          at2 (in_proj_weight m) (part * mha_embed_dim m + e) e' * at3 x b t e')"

text \<open>The scaled dot product of query position \<open>t\<close> and key position \<open>s\<close> in head \<open>h\<close>.\<close>

definition attention_score ::
  "multihead_attention \<Rightarrow> tensor \<Rightarrow> tensor \<Rightarrow> nat \<Rightarrow> nat \<Rightarrow> nat \<Rightarrow> nat \<Rightarrow> real" where
  "attention_score m query key b h t s =
     (\<Sum>d\<leftarrow>[0..<head_dim m].
        in_projection m 0 query b t (h * head_dim m + d)
        * in_projection m 1 key b s (h * head_dim m + d))
     / sqrt (real (head_dim m))"

text \<open>
  The attention mask is shared by the batch when it has rank 2, \<open>(T, S)\<close>, and holds one
  \<open>(T, S)\<close> matrix per batch element and head when it has rank 3, \<open>(B * num_heads, T, S)\<close>.
  The key padding mask has shape \<open>(B, S)\<close>. An absent mask adds nothing.
\<close>

definition attn_mask_at :: "mask option \<Rightarrow> nat \<Rightarrow> nat \<Rightarrow> nat \<Rightarrow> nat \<Rightarrow> nat \<Rightarrow> extended" where
  "attn_mask_at attn_mask H b h t s =
     (case attn_mask of
        None \<Rightarrow> Finite 0
      | Some a \<Rightarrow> if length (mask_shape a) = 2 then mask_at2 a t s
                  else mask_at3 a (b * H + h) t s)"

definition key_padding_mask_at :: "mask option \<Rightarrow> nat \<Rightarrow> nat \<Rightarrow> extended" where
  "key_padding_mask_at key_padding_mask b s =
     (case key_padding_mask of None \<Rightarrow> Finite 0 | Some k \<Rightarrow> mask_at2 k b s)"

definition attention_logit ::
  "multihead_attention \<Rightarrow> tensor \<Rightarrow> tensor \<Rightarrow> mask option \<Rightarrow> mask option
     \<Rightarrow> nat \<Rightarrow> nat \<Rightarrow> nat \<Rightarrow> nat \<Rightarrow> extended" where
  "attention_logit m query key attn_mask key_padding_mask b h t s =
     add_extended (Finite (attention_score m query key b h t s))
       (add_extended (attn_mask_at attn_mask (mha_num_heads m) b h t s)
          (key_padding_mask_at key_padding_mask b s))"

text \<open>
  The softmax over the key positions. A position whose logit is \<open>-\<infinity>\<close> gets weight 0.
  (When every key position of a row is masked the library yields NaN; here the quotient
  by zero is 0.)
\<close>

definition attention_weight ::
  "multihead_attention \<Rightarrow> tensor \<Rightarrow> tensor \<Rightarrow> mask option \<Rightarrow> mask option
     \<Rightarrow> nat \<Rightarrow> nat \<Rightarrow> nat \<Rightarrow> nat \<Rightarrow> real" where
  "attention_weight m query key attn_mask key_padding_mask b h t s =
     exp_extended (attention_logit m query key attn_mask key_padding_mask b h t s)
     / (\<Sum>s'\<leftarrow>[0..<shape key ! 1].
          exp_extended (attention_logit m query key attn_mask key_padding_mask b h t s'))"

definition attention_output ::
  "multihead_attention \<Rightarrow> tensor \<Rightarrow> tensor \<Rightarrow> tensor \<Rightarrow> mask option \<Rightarrow> mask option
     \<Rightarrow> nat \<Rightarrow> nat \<Rightarrow> nat \<Rightarrow> real" where
  "attention_output m query key val attn_mask key_padding_mask b t e =
     (\<Sum>s\<leftarrow>[0..<shape key ! 1].
        attention_weight m query key attn_mask key_padding_mask b (e div head_dim m) t s
        * in_projection m 2 val b s e)"

definition attn_mask_ok :: "mask option \<Rightarrow> nat \<Rightarrow> nat \<Rightarrow> nat \<Rightarrow> nat \<Rightarrow> bool" where
  "attn_mask_ok attn_mask B H T S =
     (case attn_mask of
        None \<Rightarrow> True
      | Some a \<Rightarrow> mask_shape a = [T, S] \<or> mask_shape a = [B * H, T, S])"

definition key_padding_mask_ok :: "mask option \<Rightarrow> nat \<Rightarrow> nat \<Rightarrow> bool" where
  "key_padding_mask_ok key_padding_mask B S =
     (case key_padding_mask of None \<Rightarrow> True | Some k \<Rightarrow> mask_shape k = [B, S])"

definition multihead_attention_forward ::
  "multihead_attention \<Rightarrow> tensor \<Rightarrow> tensor \<Rightarrow> tensor \<Rightarrow> mask option \<Rightarrow> mask option
     \<Rightarrow> error + tensor" where
  "multihead_attention_forward m query key val attn_mask key_padding_mask =
     (case shape query of
        [B, T, E] \<Rightarrow>
          (case shape key of
             [B', S, E'] \<Rightarrow>
               if E \<noteq> mha_embed_dim m then Inl EmbedDimMismatch
               else if mha_num_heads m = 0 then Inl ZeroDivisionError
               else if head_dim m * mha_num_heads m \<noteq> E then Inl EmbedDimNotDivisible
               else if shape val \<noteq> shape key \<or> B' \<noteq> B \<or> E' \<noteq> E then Inl KeyShapeMismatch
               else if \<not> attn_mask_ok attn_mask B (mha_num_heads m) T S
               then Inl AttnMaskShapeMismatch
               else if \<not> key_padding_mask_ok key_padding_mask B S
               then Inl KeyPaddingMaskShapeMismatch
               else linear_forward (out_proj m)
                      (tabulate3 B T E
                         (attention_output m query key val attn_mask key_padding_mask))
           | _ \<Rightarrow> Inl RankNotModelled)
      | _ \<Rightarrow> Inl RankNotModelled)"

section \<open>\<^verbatim>\<open>nn.TransformerDecoderLayer\<close> and \<^verbatim>\<open>nn.TransformerDecoder\<close>\<close>

text \<open>
  \<^verbatim>\<open>nn.TransformerDecoderLayer(d_model, nhead, dim_feedforward, dropout, batch_first=True,
  norm_first=True)\<close> with the default ReLU activation. The dropout modules are the
  identity, as they are in evaluation mode or with \<open>dropout = 0\<close>: the random masks of
  training mode are not modelled.
\<close>

record TransformerDecoderLayer =
  self_attn :: multihead_attention
  multihead_attn :: multihead_attention
  linear1 :: linear
  linear2 :: linear
  norm1 :: layer_norm
  norm2 :: layer_norm
  norm3 :: layer_norm
  dropout_p :: real

definition sa_block ::
  "TransformerDecoderLayer \<Rightarrow> tensor \<Rightarrow> mask option \<Rightarrow> mask option \<Rightarrow> error + tensor" where
  "sa_block self x attn_mask key_padding_mask =
     multihead_attention_forward (self_attn self) x x x attn_mask key_padding_mask"

definition mha_block ::
  "TransformerDecoderLayer \<Rightarrow> tensor \<Rightarrow> tensor \<Rightarrow> mask option \<Rightarrow> mask option
     \<Rightarrow> error + tensor" where
  "mha_block self x mem attn_mask key_padding_mask =
     multihead_attention_forward (multihead_attn self) x mem mem attn_mask key_padding_mask"

definition ff_block :: "TransformerDecoderLayer \<Rightarrow> tensor \<Rightarrow> error + tensor" where
  "ff_block self x =
     bind_result (linear_forward (linear1 self) x) (\<lambda>h. linear_forward (linear2 self) (relu h))"

text \<open>
  The pre-normalisation order (\<^verbatim>\<open>norm_first=True\<close>): each sub-block reads the
  normalised input and its result is added to the unnormalised input.
\<close>

definition TransformerDecoderLayer_forward ::
  "TransformerDecoderLayer \<Rightarrow> tensor \<Rightarrow> tensor \<Rightarrow> mask option \<Rightarrow> mask option
     \<Rightarrow> mask option \<Rightarrow> mask option \<Rightarrow> error + tensor" where
  "TransformerDecoderLayer_forward self tgt memory tgt_mask memory_mask
       tgt_key_padding_mask memory_key_padding_mask =
     bind_result (layer_norm_forward (norm1 self) tgt) (\<lambda>n1.
     bind_result (sa_block self n1 tgt_mask tgt_key_padding_mask) (\<lambda>a1.
     bind_result (add tgt a1) (\<lambda>x1.
     bind_result (layer_norm_forward (norm2 self) x1) (\<lambda>n2.
     bind_result (mha_block self n2 memory memory_mask memory_key_padding_mask) (\<lambda>a2.
     bind_result (add x1 a2) (\<lambda>x2.
     bind_result (layer_norm_forward (norm3 self) x2) (\<lambda>n3.
     bind_result (ff_block self n3) (\<lambda>a3.
     add x2 a3))))))))"

text \<open>
  \<^verbatim>\<open>nn.TransformerDecoder(decoder_layer, num_layers)\<close> holds \<open>num_layers\<close> copies of the
  layer and no final norm. Its forward pass reads the first layer before the loop, so
  that an empty stack fails, and then feeds the target through the layers in order, each
  with the same memory and masks.
\<close>

fun layers_forward ::
  "TransformerDecoderLayer list \<Rightarrow> tensor \<Rightarrow> tensor \<Rightarrow> mask option \<Rightarrow> mask option
     \<Rightarrow> mask option \<Rightarrow> mask option \<Rightarrow> error + tensor" where
  "layers_forward [] output memory tgt_mask memory_mask tkpm mkpm = Inr output"
| "layers_forward (l # ls) output memory tgt_mask memory_mask tkpm mkpm =
     bind_result (TransformerDecoderLayer_forward l output memory tgt_mask memory_mask tkpm mkpm)
       (\<lambda>output. layers_forward ls output memory tgt_mask memory_mask tkpm mkpm)"

definition nn_TransformerDecoder_forward ::
  "TransformerDecoderLayer list \<Rightarrow> tensor \<Rightarrow> tensor \<Rightarrow> mask option \<Rightarrow> mask option
     \<Rightarrow> mask option \<Rightarrow> mask option \<Rightarrow> error + tensor" where
  "nn_TransformerDecoder_forward layers tgt memory tgt_mask memory_mask
       tgt_key_padding_mask memory_key_padding_mask =
     (if layers = [] then Inl IndexError
      else layers_forward layers tgt memory tgt_mask memory_mask
             tgt_key_padding_mask memory_key_padding_mask)"

section \<open>\<^verbatim>\<open>TransformerDecoder\<close>\<close>

text \<open>
  The initial values of the layer's weights and biases, as functions of the element's
  index. (The layer norms start with weight 1 and bias 0.)
\<close>

record linear_values =
  linear_weight_init :: "nat \<Rightarrow> nat \<Rightarrow> real"
  linear_bias_init :: "nat \<Rightarrow> real"

record layer_values =
  self_attn_in_proj :: linear_values
  self_attn_out_proj :: linear_values
  multihead_attn_in_proj :: linear_values
  multihead_attn_out_proj :: linear_values
  linear1_values :: linear_values
  linear2_values :: linear_values

definition nn_Linear :: "nat \<Rightarrow> nat \<Rightarrow> linear_values \<Rightarrow> linear" where
  "nn_Linear n_in n_out v =
     \<lparr>in_features = n_in, out_features = n_out,
      linear_weight = tabulate2 n_out n_in (linear_weight_init v),
      linear_bias = tabulate1 n_out (linear_bias_init v)\<rparr>"

definition nn_LayerNorm :: "nat \<Rightarrow> layer_norm" where
  "nn_LayerNorm n =
     \<lparr>normalized_shape = n, norm_weight = tabulate1 n (\<lambda>e. 1), norm_bias = tabulate1 n (\<lambda>e. 0),
      eps = 1 / 100000\<rparr>"

definition nn_MultiheadAttention ::
  "nat \<Rightarrow> nat \<Rightarrow> linear_values \<Rightarrow> linear_values \<Rightarrow> multihead_attention" where
  "nn_MultiheadAttention e h v_in v_out =
     \<lparr>mha_embed_dim = e, mha_num_heads = h,
      in_proj_weight = tabulate2 (3 * e) e (linear_weight_init v_in),
      in_proj_bias = tabulate1 (3 * e) (linear_bias_init v_in),
      out_proj = nn_Linear e e v_out\<rparr>"

text \<open>
  The constructor of the attention module rejects an embedding size or a head count that
  is not positive, and an embedding size that the head count does not divide.
\<close>

definition nn_TransformerDecoderLayer ::
  "nat \<Rightarrow> nat \<Rightarrow> nat \<Rightarrow> real \<Rightarrow> layer_values \<Rightarrow> error + TransformerDecoderLayer" where
  "nn_TransformerDecoderLayer d_model nhead dim_feedforward dropout v =
     (if d_model = 0 \<or> nhead = 0 then Inl ZeroDivisionError
      else if (d_model div nhead) * nhead \<noteq> d_model then Inl EmbedDimNotDivisible
      else Inr \<lparr>self_attn = nn_MultiheadAttention d_model nhead
                   (self_attn_in_proj v) (self_attn_out_proj v),
                multihead_attn = nn_MultiheadAttention d_model nhead
                   (multihead_attn_in_proj v) (multihead_attn_out_proj v),
                linear1 = nn_Linear d_model dim_feedforward (linear1_values v),
                linear2 = nn_Linear dim_feedforward d_model (linear2_values v),
                norm1 = nn_LayerNorm d_model,
                norm2 = nn_LayerNorm d_model,
                norm3 = nn_LayerNorm d_model,
                dropout_p = dropout\<rparr>)"

record TransformerDecoder =
  decoder_layer :: TransformerDecoderLayer
  transformer_decoder :: "TransformerDecoderLayer list"

text \<open>
  \<^verbatim>\<open>TransformerDecoder.__init__(d_model, nhead, dim_feedforward, dropout, n_layers)\<close>: the
  layer is built once and the stack holds \<open>n_layers\<close> deep copies of it.
\<close>

definition TransformerDecoder_init ::
  "nat \<Rightarrow> nat \<Rightarrow> nat \<Rightarrow> real \<Rightarrow> nat \<Rightarrow> layer_values \<Rightarrow> error + TransformerDecoder" where
  "TransformerDecoder_init d_model nhead dim_feedforward dropout n_layers v =
     bind_result (nn_TransformerDecoderLayer d_model nhead dim_feedforward dropout v)
       (\<lambda>layer. Inr \<lparr>decoder_layer = layer, transformer_decoder = replicate n_layers layer\<rparr>)"

text \<open>\<^verbatim>\<open>TransformerDecoder.forward\<close> hands its six arguments to the stack.\<close>

definition TransformerDecoder_forward ::
  "TransformerDecoder \<Rightarrow> tensor \<Rightarrow> tensor \<Rightarrow> mask option \<Rightarrow> mask option
     \<Rightarrow> mask option \<Rightarrow> mask option \<Rightarrow> error + tensor" where
  "TransformerDecoder_forward self target_tokens memory tgt_mask memory_mask
       tgt_key_padding_mask memory_key_padding_mask =
     nn_TransformerDecoder_forward (transformer_decoder self) target_tokens memory
       tgt_mask memory_mask tgt_key_padding_mask memory_key_padding_mask"


text \<open>
  A layer has the sizes of the constructor call
  \<^verbatim>\<open>TransformerDecoderLayer(d_model, nhead, dim_feedforward)\<close>. Training changes the
  values of the weights and biases of each copy, never these sizes.
\<close>

definition attention_sizes :: "nat \<Rightarrow> nat \<Rightarrow> multihead_attention \<Rightarrow> bool" where
  "attention_sizes e h m =
     (mha_embed_dim m = e \<and> mha_num_heads m = h \<and> in_features (out_proj m) = e
      \<and> out_features (out_proj m) = e)"

definition layer_sizes :: "nat \<Rightarrow> nat \<Rightarrow> nat \<Rightarrow> TransformerDecoderLayer \<Rightarrow> bool" where
  "layer_sizes d_model nhead dim_feedforward l =
     (0 < d_model \<and> 0 < nhead \<and> (d_model div nhead) * nhead = d_model
      \<and> attention_sizes d_model nhead (self_attn l)
      \<and> attention_sizes d_model nhead (multihead_attn l)
      \<and> in_features (linear1 l) = d_model \<and> out_features (linear1 l) = dim_feedforward
      \<and> in_features (linear2 l) = dim_feedforward \<and> out_features (linear2 l) = d_model
      \<and> normalized_shape (norm1 l) = d_model \<and> normalized_shape (norm2 l) = d_model
      \<and> normalized_shape (norm3 l) = d_model)"

section \<open>Reordering the batch axis\<close>






section \<open>Example values\<close>

text \<open>Layer values in which every weight element is \<open>w\<close> and every bias element \<open>b\<close>.\<close>

definition constant_layer_values :: "real \<Rightarrow> real \<Rightarrow> layer_values" where
  "constant_layer_values w b =
     (let v = \<lparr>linear_weight_init = (\<lambda>i j. w), linear_bias_init = (\<lambda>i. b)\<rparr> in
      \<lparr>self_attn_in_proj = v, self_attn_out_proj = v, multihead_attn_in_proj = v,
       multihead_attn_out_proj = v, linear1_values = v, linear2_values = v\<rparr>)"


section \<open>Index arithmetic of the row-major layout\<close>

lemma flat2_lt: "i < (H::nat) \<Longrightarrow> j < W \<Longrightarrow> i * W + j < H * W"
proof -
  assume a: "i < H" "j < W"
  then have "i * W + j < i * W + W" by simp
  also have "\<dots> = (i + 1) * W" by simp
  also have "\<dots> \<le> H * W" using a by (intro mult_le_mono1) simp
  finally show ?thesis .
qed

lemma flat4_lt:
  "b < (B::nat) \<Longrightarrow> c < C \<Longrightarrow> i < H \<Longrightarrow> j < W \<Longrightarrow> ((b * C + c) * H + i) * W + j < B * C * H * W"
  by (intro flat2_lt) 

lemma unflat4:
  assumes "c < (C::nat)" "i < H" "j < W"
  shows "(((b * C + c) * H + i) * W + j) mod W = j"
    and "(((b * C + c) * H + i) * W + j) div W mod H = i"
    and "(((b * C + c) * H + i) * W + j) div (H * W) mod C = c"
    and "(((b * C + c) * H + i) * W + j) div (C * H * W) = b"
proof -
  let ?k = "((b * C + c) * H + i) * W + j"
  show "?k mod W = j" using assms by simp
  have d1: "?k div W = (b * C + c) * H + i" using assms by simp
  show "?k div W mod H = i" using assms d1 by simp
  have "?k div (H * W) = ?k div W div H"
    by (metis div_mult2_eq mult.commute)
  then have d2: "?k div (H * W) = b * C + c"
    using assms d1 by simp
  show "?k div (H * W) mod C = c" using assms d2 by simp
  have "?k div (C * H * W) = ?k div (H * W) div C"
    by (metis div_mult2_eq mult.commute mult.assoc)
  then show "?k div (C * H * W) = b" using assms d2 by simp
qed

lemma unflat4_lt:
  assumes "k < B * C * H * (W::nat)"
  shows "k div (C * H * W) < B" "k div (H * W) mod C < C" "k div W mod H < H" "k mod W < W"
proof -
  have pos: "0 < B" "0 < C" "0 < H" "0 < W" using assms by (auto intro: Nat.gr0I)
  show "k mod W < W" "k div W mod H < H" "k div (H * W) mod C < C" using pos by simp_all
  have "k < B * (C * H * W)" using assms by (simp add: mult.assoc)
  then show "k div (C * H * W) < B" using pos
    by (simp add: less_mult_imp_div_less mult.commute)
qed

lemma reflat4:
  "((k div (C * H * W) * C + k div (H * W) mod C) * H + k div W mod H) * W + k mod W = (k::nat)"
proof -
  have "k div (C * H * W) = k div (H * W) div C"
    by (metis div_mult2_eq mult.commute mult.assoc)
  then have a: "k div (C * H * W) * C + k div (H * W) mod C = k div (H * W)" by simp
  have "k div (H * W) = k div W div H" by (metis div_mult2_eq mult.commute)
  then have b: "k div (H * W) * H + k div W mod H = k div W" by simp
  show ?thesis unfolding a b by simp
qed

section \<open>Properties of the tensor operations\<close>

lemma shape_tabulate4: "shape (tabulate4 B C H W f) = [B, C, H, W]"
  by (simp add: tabulate4_def)

lemma length_data_tabulate4: "length (data (tabulate4 B C H W f)) = B * C * H * W"
  by (simp add: tabulate4_def)

lemma contiguous_tabulate4: "contiguous (tabulate4 B C H W f)"
  by (simp add: contiguous_def numel_def tabulate4_def mult.assoc)

lemma at4_tabulate4:
  assumes "b < B" "c < C" "i < H" "j < W"
  shows "at4 (tabulate4 B C H W f) b c i j = f b c i j"
proof -
  let ?k = "((b * C + c) * H + i) * W + j"
  have lt: "?k < B * C * H * W" using assms by (rule flat4_lt)
  have "at4 (tabulate4 B C H W f) b c i j = data (tabulate4 B C H W f) ! ?k"
    by (simp add: at4_def tabulate4_def)
  also have "\<dots> = f (?k div (C * H * W)) (?k div (H * W) mod C) (?k div W mod H) (?k mod W)"
    using lt by (simp add: tabulate4_def del: upt_Suc)
  also have "\<dots> = f b c i j"
    using unflat4 [OF assms(2-4), of b] by simp
  finally show ?thesis .
qed




lemma shape_relu: "shape (relu x) = shape x"
  by (simp add: relu_def)


lemma stage_forward:
  "Sequential_forward [nn_Conv2d cin cout 3 1 v, ReLU, Upsample 2 Nearest] x =
     bind_result (conv2d_forward
         \<lparr>in_channels = cin, out_channels = cout, kernel_size = 3, padding = 1,
          weight = tabulate4 cout cin 3 3 (weight_init v),
          bias = tabulate1 cout (bias_init v)\<rparr> x)
       (\<lambda>y. upsample_nearest 2 (relu y))"
  by (cases "conv2d_forward
         \<lparr>in_channels = cin, out_channels = cout, kernel_size = 3, padding = 1,
          weight = tabulate4 cout cin 3 3 (weight_init v),
          bias = tabulate1 cout (bias_init v)\<rparr> x")
     (simp_all add: nn_Conv2d_def bind_result_def split: sum.splits)

lemma stage_ok:
  assumes "shape x = [B, cin, H, W]" "0 < H" "0 < W" "0 < cout"
  shows "\<exists>y. Sequential_forward [nn_Conv2d cin cout 3 1 v, ReLU, Upsample 2 Nearest] x = Inr y
           \<and> shape y = [B, cout, 2 * H, 2 * W] \<and> contiguous y"
  using assms unfolding stage_forward
  by (simp add: conv2d_forward_def bind_result_def upsample_nearest_def shape_relu
      shape_tabulate4 contiguous_tabulate4 mult.commute)

lemma stage_inv:
  assumes "Sequential_forward [nn_Conv2d cin cout 3 1 v, ReLU, Upsample 2 Nearest] x = Inr y"
    and "shape x = [B, C, H, W]"
  shows "C = cin \<and> 0 < H \<and> 0 < W \<and> 0 < cout \<and> shape y = [B, cout, 2 * H, 2 * W] \<and> contiguous y"
  using assms unfolding stage_forward
  by (auto simp add: conv2d_forward_def bind_result_def upsample_nearest_def shape_relu
      shape_tabulate4 contiguous_tabulate4 mult.commute split: if_splits)

lemma forward_unfold:
  assumes "shape x = [B, N, C]"
  shows "forward self x =
          bind_result (view x [B, grid_h self, grid_w self, C]) (\<lambda>x.
          bind_result (permute_0312 x) (\<lambda>x.
          bind_result (Sequential_forward (layer1 self) x) (\<lambda>x.
          bind_result (Sequential_forward (layer2 self) x) (\<lambda>x.
          Sequential_forward (layer3 self) x))))"
  using assms by (simp add: forward_def)

lemma forward_ok:
  assumes x: "shape x = [B, (img_h div 8) * (img_w div 8), embed_dim]"
    and pos: "0 < embed_dim" "8 \<le> img_h" "8 \<le> img_w"
  shows "\<exists>y. forward (CNNDecoder_init embed_dim img_h img_w v1 v2 v3) x = Inr y
           \<and> shape y = [B, 3, 8 * (img_h div 8), 8 * (img_w div 8)] \<and> contiguous y"
proof -
  let ?gh = "img_h div 8" and ?gw = "img_w div 8"
  let ?d = "CNNDecoder_init embed_dim img_h img_w v1 v2 v3"
  have g: "0 < ?gh" "0 < ?gw" using pos by (simp_all add: div_greater_zero_iff)
  have v: "view x [B, ?gh, ?gw, embed_dim] = Inr (x\<lparr>shape := [B, ?gh, ?gw, embed_dim]\<rparr>)"
    using x by (simp add: view_def numel_def)
  define x1 where "x1 = tabulate4 B embed_dim ?gh ?gw
     (\<lambda>b c i j. at4 (x\<lparr>shape := [B, ?gh, ?gw, embed_dim]\<rparr>) b i j c)"
  have p: "permute_0312 (x\<lparr>shape := [B, ?gh, ?gw, embed_dim]\<rparr>) = Inr x1"
    by (simp add: permute_0312_def x1_def)
  have s1: "shape x1 = [B, embed_dim, ?gh, ?gw]" by (simp add: x1_def shape_tabulate4)
  obtain x2 where x2: "Sequential_forward (layer1 ?d) x1 = Inr x2"
      "shape x2 = [B, embed_dim, 2 * ?gh, 2 * ?gw]"
    using stage_ok [OF s1 g pos(1), of v1] by (auto simp: CNNDecoder_init_def)
  obtain x3 where x3: "Sequential_forward (layer2 ?d) x2 = Inr x3"
      "shape x3 = [B, embed_dim, 2 * (2 * ?gh), 2 * (2 * ?gw)]"
    using stage_ok [OF x2(2) _ _ pos(1), of v2] g by (auto simp: CNNDecoder_init_def)
  obtain y where y: "Sequential_forward (layer3 ?d) x3 = Inr y"
      "shape y = [B, 3, 2 * (2 * (2 * ?gh)), 2 * (2 * (2 * ?gw))]" "contiguous y"
    using stage_ok [OF x3(2), of 3 v3] g by (auto simp: CNNDecoder_init_def)
  have "forward ?d x = Inr y"
    unfolding forward_unfold [OF x]
    using v p x2(1) x3(1) y(1) by (simp add: bind_result_def CNNDecoder_init_def)
  then show ?thesis using y(2,3) by simp
qed

lemma bind_result_Inr:
  "bind_result r f = Inr y \<Longrightarrow> \<exists>v. r = Inr v \<and> f v = Inr y"
  by (cases r) (simp_all add: bind_result_def)

lemma forward_inv:
  assumes "forward (CNNDecoder_init embed_dim img_h img_w v1 v2 v3) x = Inr y"
  shows "\<exists>B N. shape x = [B, N, embed_dim]
           \<and> B * N * embed_dim = B * (img_h div 8) * (img_w div 8) * embed_dim
           \<and> 0 < embed_dim \<and> 8 \<le> img_h \<and> 8 \<le> img_w
           \<and> shape y = [B, 3, 8 * (img_h div 8), 8 * (img_w div 8)] \<and> contiguous y"
proof -
  let ?gh = "img_h div 8" and ?gw = "img_w div 8"
  let ?d = "CNNDecoder_init embed_dim img_h img_w v1 v2 v3"
  obtain B N C where x: "shape x = [B, N, C]"
    using assms by (auto simp: forward_def split: list.splits)
  note f = assms [unfolded forward_unfold [OF x]]
  from bind_result_Inr [OF f] obtain g where g: "view x [B, grid_h ?d, grid_w ?d, C] = Inr g"
    and f1: "bind_result (permute_0312 g) (\<lambda>x.
          bind_result (Sequential_forward (layer1 ?d) x) (\<lambda>x.
          bind_result (Sequential_forward (layer2 ?d) x) (\<lambda>x.
          Sequential_forward (layer3 ?d) x))) = Inr y" by blast
  from g have sg: "shape g = [B, ?gh, ?gw, C]" and n: "B * ?gh * ?gw * C = B * N * C"
    using x by (auto simp: view_def numel_def CNNDecoder_init_def mult.assoc split: if_splits)
  from bind_result_Inr [OF f1] obtain x1 where x1: "permute_0312 g = Inr x1"
    and f2: "bind_result (Sequential_forward (layer1 ?d) x1) (\<lambda>x.
          bind_result (Sequential_forward (layer2 ?d) x) (\<lambda>x.
          Sequential_forward (layer3 ?d) x)) = Inr y" by blast
  from x1 sg have s1: "shape x1 = [B, C, ?gh, ?gw]"
    by (auto simp: permute_0312_def shape_tabulate4)
  from bind_result_Inr [OF f2] obtain x2 where x2: "Sequential_forward (layer1 ?d) x1 = Inr x2"
    and f3: "bind_result (Sequential_forward (layer2 ?d) x2) (\<lambda>x.
          Sequential_forward (layer3 ?d) x) = Inr y" by blast
  from bind_result_Inr [OF f3] obtain x3 where x3: "Sequential_forward (layer2 ?d) x2 = Inr x3"
    and f4: "Sequential_forward (layer3 ?d) x3 = Inr y" by blast
  have i1: "C = embed_dim \<and> 0 < ?gh \<and> 0 < ?gw \<and> 0 < embed_dim
      \<and> shape x2 = [B, embed_dim, 2 * ?gh, 2 * ?gw] \<and> contiguous x2"
    using stage_inv [OF _ s1, of embed_dim embed_dim v1 x2] x2 by (simp add: CNNDecoder_init_def)
  then have s2: "shape x2 = [B, embed_dim, 2 * ?gh, 2 * ?gw]" by simp
  have i2: "shape x3 = [B, embed_dim, 2 * (2 * ?gh), 2 * (2 * ?gw)]"
    using stage_inv [OF _ s2, of embed_dim embed_dim v2 x3] x3 by (simp add: CNNDecoder_init_def)
  have i3: "shape y = [B, 3, 2 * (2 * (2 * ?gh)), 2 * (2 * (2 * ?gw))] \<and> contiguous y"
    using stage_inv [OF _ i2, of embed_dim 3 v3 y] f4 by (simp add: CNNDecoder_init_def)
  have "8 \<le> img_h" "8 \<le> img_w" using i1 by (simp_all add: div_greater_zero_iff)
  then show ?thesis using x i1 i3 n by auto
qed

lemma shape_full: "shape (full sizes v) = sizes"
  by (simp add: full_def)

lemma contiguous_full: "contiguous (full sizes v)"
  by (simp add: full_def contiguous_def numel_def)

section \<open>Construction\<close>

text \<open>
  Claim C1 (as amended). The claim asks that constructing the decoder with an
  \<open>img_height\<close> or \<open>img_width\<close> that is not divisible by 8 fails with a configuration
  error. The constructor has no such check. What holds: construction accepts every
  \<open>img_height\<close> and \<open>img_width\<close>, stores them unchanged, and derives
  \<open>grid_h = img_height div 8\<close> and \<open>grid_w = img_width div 8\<close>; when a size is not
  divisible by 8 the derived grid is truncated, that is, eight times the grid size is
  strictly smaller than the requested size.
\<close>

theorem CNNDecoder_init_truncates_grid:
  "img_height (CNNDecoder_init embed_dim img_h img_w v1 v2 v3) = img_h
   \<and> img_width (CNNDecoder_init embed_dim img_h img_w v1 v2 v3) = img_w
   \<and> grid_h (CNNDecoder_init embed_dim img_h img_w v1 v2 v3) = img_h div 8
   \<and> grid_w (CNNDecoder_init embed_dim img_h img_w v1 v2 v3) = img_w div 8
   \<and> (\<not> 8 dvd img_h \<longrightarrow> 8 * grid_h (CNNDecoder_init embed_dim img_h img_w v1 v2 v3) < img_h)
   \<and> (\<not> 8 dvd img_w \<longrightarrow> 8 * grid_w (CNNDecoder_init embed_dim img_h img_w v1 v2 v3) < img_w)"
proof -
  have "\<not> 8 dvd n \<Longrightarrow> 8 * (n div 8) < n" for n :: nat
    by presburger
  then show ?thesis by (simp add: CNNDecoder_init_def)
qed

theorem CNNDecoder_init_truncates_grid_witness:
  "\<not> 8 dvd (100::nat)
   \<and> grid_h (CNNDecoder_init 4 100 100 (constant_values 0 0) (constant_values 0 0)
        (constant_values 0 0)) = 12
   \<and> 8 * grid_h (CNNDecoder_init 4 100 100 (constant_values 0 0) (constant_values 0 0)
        (constant_values 0 0)) < 100"
  using CNNDecoder_init_truncates_grid [of 4 100 100 "constant_values 0 0"
      "constant_values 0 0" "constant_values 0 0"]
  by simp

text \<open>
  The counterexample to C1 as stated: with \<open>img_height = img_width = 100\<close> construction
  returns a decoder whose grid is \<open>12 \<times> 12\<close>, and its forward pass on 144 tokens returns an
  image of \<open>96 \<times> 96\<close> pixels.
\<close>

theorem CNNDecoder_init_100_counterexample:
  "img_height (CNNDecoder_init 4 100 100 (constant_values 0 0) (constant_values 0 0)
       (constant_values 0 0)) = 100
   \<and> grid_h (CNNDecoder_init 4 100 100 (constant_values 0 0) (constant_values 0 0)
       (constant_values 0 0)) = 12
   \<and> grid_w (CNNDecoder_init 4 100 100 (constant_values 0 0) (constant_values 0 0)
       (constant_values 0 0)) = 12
   \<and> map_sum id shape
       (forward (CNNDecoder_init 4 100 100 (constant_values 0 0) (constant_values 0 0)
          (constant_values 0 0)) (full [1, 144, 4] 0)) = Inr [1, 3, 96, 96]"
proof -
  have "shape (full [1, 144, 4] 0) = [1, (100 div 8) * (100 div 8), 4]"
    by (simp add: shape_full)
  from forward_ok [OF this, of "constant_values 0 0" "constant_values 0 0" "constant_values 0 0"]
  obtain y where "forward (CNNDecoder_init 4 100 100 (constant_values 0 0) (constant_values 0 0)
      (constant_values 0 0)) (full [1, 144, 4] 0) = Inr y" "shape y = [1, 3, 96, 96]"
    by auto
  then show ?thesis by (simp add: CNNDecoder_init_def)
qed

section \<open>Output shape\<close>

text \<open>
  Claim C2. For every \<open>img_height\<close> and \<open>img_width\<close> divisible by 8, every \<open>embed_dim\<close>
  and every batch size, the decoder constructed with these sizes maps a feature sequence
  of shape \<open>(batch, (img_height/8) * (img_width/8), embed_dim)\<close> to a tensor of shape
  exactly \<open>(batch, 3, img_height, img_width)\<close>. The sizes are those of an image and of a
  channel axis: positive. The batch may be empty.
\<close>

theorem forward_shape_divisible:
  assumes "8 dvd img_h" and "8 dvd img_w" and "0 < img_h" and "0 < img_w" and "0 < embed_dim"
    and "shape x = [batch, (img_h div 8) * (img_w div 8), embed_dim]"
  shows "\<exists>y. forward (CNNDecoder_init embed_dim img_h img_w v1 v2 v3) x = Inr y
           \<and> shape y = [batch, 3, img_h, img_w]"
proof -
  have "8 \<le> img_h" "8 \<le> img_w" using assms(1-4) by (auto dest: dvd_imp_le)
  from forward_ok [OF assms(6) assms(5) this, of v1 v2 v3] assms(1,2)
  show ?thesis by auto
qed

text \<open>
  The concrete scenario of C2: \<open>embed_dim = 512\<close>, a \<open>256 \<times> 256\<close> image, and a
  \<open>(2, 1024, 512)\<close> feature sequence give a \<open>(2, 3, 256, 256)\<close> image tensor.
\<close>

theorem forward_shape_divisible_witness:
  "\<exists>y. forward (CNNDecoder_init 512 256 256 (constant_values 0 0) (constant_values 0 0)
          (constant_values 0 0)) (full [2, 1024, 512] 0) = Inr y
       \<and> shape y = [2, 3, 256, 256]"
  using forward_shape_divisible [of 256 256 512 "full [2, 1024, 512] 0" 2
      "constant_values 0 0" "constant_values 0 0" "constant_values 0 0"]
  by (simp add: shape_full)

text \<open>
  Claim C9. For every constructed decoder and every input its forward pass accepts, the
  output has the input's batch size, 3 channels and spatial sizes
  \<open>(8 * (img_height div 8), 8 * (img_width div 8))\<close>. The stored \<open>img_height\<close> and
  \<open>img_width\<close> are not read by the forward pass: overwriting them changes nothing. So
  when a size is not divisible by 8 the output is smaller than requested, and no error
  is raised.
\<close>

theorem forward_output_size:
  assumes "forward (CNNDecoder_init embed_dim img_h img_w v1 v2 v3) x = Inr y"
  shows "shape y = [hd (shape x), 3, 8 * (img_h div 8), 8 * (img_w div 8)]
         \<and> forward ((CNNDecoder_init embed_dim img_h img_w v1 v2 v3)
              \<lparr>img_height := h', img_width := w'\<rparr>) x = Inr y
         \<and> (\<not> 8 dvd img_h \<longrightarrow> shape y ! 2 < img_h)
         \<and> (\<not> 8 dvd img_w \<longrightarrow> shape y ! 3 < img_w)"
proof -
  from forward_inv [OF assms] obtain B N where x: "shape x = [B, N, embed_dim]"
    and y: "shape y = [B, 3, 8 * (img_h div 8), 8 * (img_w div 8)]" by blast
  have fr: "forward ((CNNDecoder_init embed_dim img_h img_w v1 v2 v3)
      \<lparr>img_height := h', img_width := w'\<rparr>) x
      = forward (CNNDecoder_init embed_dim img_h img_w v1 v2 v3) x"
    by (simp add: forward_def split: list.splits)
  have tr: "\<not> 8 dvd n \<Longrightarrow> 8 * (n div 8) < n" for n :: nat
    by presburger
  show ?thesis using x y fr assms tr [of img_h] tr [of img_w] by simp
qed

theorem forward_output_size_witness:
  "\<exists>y. forward (CNNDecoder_init 4 100 64 (constant_values 0 0) (constant_values 0 0)
          (constant_values 0 0)) (full [2, 96, 4] 0) = Inr y
       \<and> shape y = [2, 3, 96, 64]
       \<and> forward ((CNNDecoder_init 4 100 64 (constant_values 0 0) (constant_values 0 0)
          (constant_values 0 0))\<lparr>img_height := 7, img_width := 1000\<rparr>) (full [2, 96, 4] 0) = Inr y
       \<and> shape y ! 2 < 100"
proof -
  have "shape (full [2, 96, 4] 0) = [2, (100 div 8) * (64 div 8), 4]"
    by (simp add: shape_full)
  from forward_ok [OF this, of "constant_values 0 0" "constant_values 0 0" "constant_values 0 0"]
  obtain y where y: "forward (CNNDecoder_init 4 100 64 (constant_values 0 0) (constant_values 0 0)
      (constant_values 0 0)) (full [2, 96, 4] 0) = Inr y"
    by auto
  from forward_output_size [OF y, where h' = 7 and w' = 1000] y show ?thesis
    by (simp add: shape_full)
qed

section \<open>Token count mismatch\<close>

text \<open>
  Claim C3 (as amended). The claim asks that forward validates
  \<open>num_tokens = grid_h * grid_w\<close> as its first step and fails otherwise. The forward pass
  has no check of its own; its first tensor operation, the view as
  \<open>(batch, grid_h, grid_w, C)\<close>, compares element counts. What holds: for every input with
  at least one batch element and at least one channel whose token count differs from
  \<open>grid_h * grid_w\<close>, the view fails and forward returns its size-mismatch error before
  any layer runs; nothing is padded, truncated or reshaped another way.
\<close>

theorem forward_token_mismatch:
  assumes "shape x = [batch_size, num_tokens, channels]"
    and "num_tokens \<noteq> grid_h self * grid_w self"
    and "0 < batch_size" and "0 < channels"
  shows "view x [batch_size, grid_h self, grid_w self, channels] = Inl ViewSizeMismatch
         \<and> forward self x = Inl ViewSizeMismatch"
proof -
  have "batch_size * (grid_h self * (grid_w self * channels))
      \<noteq> batch_size * (num_tokens * channels)"
    using assms(2-4) by simp
  then have "view x [batch_size, grid_h self, grid_w self, channels] = Inl ViewSizeMismatch"
    using assms(1) by (simp add: view_def numel_def)
  then show ?thesis using assms(1) by (simp add: forward_def bind_result_def)
qed

theorem forward_token_mismatch_witness:
  "forward (CNNDecoder_init 4 16 16 (constant_values 0 0) (constant_values 0 0)
      (constant_values 0 0)) (full [1, 5, 4] 0) = Inl ViewSizeMismatch"
  using forward_token_mismatch [of "full [1, 5, 4] 0" 1 5 4
      "CNNDecoder_init 4 16 16 (constant_values 0 0) (constant_values 0 0) (constant_values 0 0)"]
  by (simp add: shape_full CNNDecoder_init_def)

text \<open>
  The counterexample to C3 as stated: an empty batch of 5 tokens, given to a decoder
  whose grid is \<open>2 \<times> 2\<close>, has zero elements, so the view succeeds, the layers run, and
  forward returns an empty \<open>(0, 3, 16, 16)\<close> image tensor instead of failing.
\<close>

theorem forward_token_mismatch_counterexample:
  "grid_h (CNNDecoder_init 4 16 16 (constant_values 0 0) (constant_values 0 0)
      (constant_values 0 0))
     * grid_w (CNNDecoder_init 4 16 16 (constant_values 0 0) (constant_values 0 0)
      (constant_values 0 0)) = 4
   \<and> shape (full [0, 5, 4] 0) = [0, 5, 4]
   \<and> forward (CNNDecoder_init 4 16 16 (constant_values 0 0) (constant_values 0 0)
      (constant_values 0 0)) (full [0, 5, 4] 0) = Inr \<lparr>shape = [0, 3, 16, 16], data = []\<rparr>"
  by (simp add: forward_def CNNDecoder_init_def view_def numel_def bind_result_def
      permute_0312_def tabulate4_def nn_Conv2d_def conv2d_forward_def relu_def
      upsample_nearest_def full_def)

section \<open>Value range of the output\<close>










section \<open>The reshape to the feature grid\<close>

lemma view_Inr: "view x sizes = Inr g \<Longrightarrow> g = x\<lparr>shape := sizes\<rparr> \<and> prod_list sizes = numel x"
  by (auto simp: view_def split: if_splits)

lemma at4_view_token:
  assumes "shape x = [B, gh * gw, C]"
  shows "at4 (x\<lparr>shape := [B, gh, gw, C]\<rparr>) b r s c = at3 x b (r * gw + s) c"
proof -
  have e: "((b * gh + r) * gw + s) * C + c = (b * (gh * gw) + (r * gw + s)) * C + c"
    by (simp add: add_mult_distrib mult.assoc)
  have "at4 (x\<lparr>shape := [B, gh, gw, C]\<rparr>) b r s c = data x ! (((b * gh + r) * gw + s) * C + c)"
    by (simp add: at4_def)
  also have "\<dots> = data x ! ((b * (gh * gw) + (r * gw + s)) * C + c)"
    by (simp only: e)
  also have "\<dots> = at3 x b (r * gw + s) c"
    using assms by (simp add: at3_def)
  finally show ?thesis .
qed

lemma at4_view_row_major:
  assumes "shape x = [B, gh * gw, C]"
  shows "at4 (x\<lparr>shape := [B, gh, gw, C]\<rparr>) b (i div gw) (i mod gw) c = at3 x b i c"
  using at4_view_token [OF assms, of b "i div gw" "i mod gw" c] by simp

lemma mset_map_nth_bij:
  assumes "bij_betw f {0..<length xs} {0..<length xs}"
  shows "mset (map (\<lambda>k. xs ! f k) [0..<length xs]) = mset xs"
proof -
  have "mset (map (\<lambda>k. xs ! f k) [0..<length xs])
      = image_mset (nth xs) (image_mset f (mset_set {0..<length xs}))"
    by (simp add: multiset.map_comp comp_def flip: mset_upt)
  also have "image_mset f (mset_set {0..<length xs}) = mset_set (f ` {0..<length xs})"
    using assms by (intro image_mset_mset_set) (auto simp: bij_betw_def)
  also have "f ` {0..<length xs} = {0..<length xs}"
    using assms by (simp add: bij_betw_def)
  also have "image_mset (nth xs) (mset_set {0..<length xs}) = mset (map (nth xs) [0..<length xs])"
    by (simp flip: mset_upt)
  also have "\<dots> = mset xs" by (simp add: map_nth)
  finally show ?thesis .
qed

lemma permute_bij:
  "bij_betw (\<lambda>k. ((k div (C * H * W) * H + k div W mod H) * W + k mod W) * C + k div (H * W) mod C)
     {0..<B * C * H * (W::nat)} {0..<B * C * H * W}"
proof (rule bij_betw_byWitness [where f' = "\<lambda>k. ((k div (H * W * C) * C + k mod C) * H + k div (W * C) mod H) * W + k div C mod W"])
  let ?f = "\<lambda>k. ((k div (C * H * W) * H + k div W mod H) * W + k mod W) * C + k div (H * W) mod C"
  let ?g = "\<lambda>k. ((k div (H * W * C) * C + k mod C) * H + k div (W * C) mod H) * W + k div C mod W"
  have fg: "?g (?f k) = k \<and> ?f k < B * C * H * W" if "k < B * C * H * W" for k
  proof -
    note lt = unflat4_lt [OF that]
    have "?f k < B * H * W * C" using lt by (intro flat4_lt)
    moreover have "?g (?f k) = k"
      using unflat4 [OF lt(3) lt(4) lt(2), of "k div (C * H * W)"] reflat4 [of k C H W]
      by simp
    ultimately show ?thesis by (simp add: mult_ac)
  qed
  have gf: "?f (?g k) = k \<and> ?g k < B * C * H * W" if "k < B * C * H * W" for k
  proof -
    from that have "k < B * H * W * C" by (simp add: mult_ac)
    note lt = unflat4_lt [OF this]
    have "?g k < B * C * H * W" using lt by (intro flat4_lt)
    moreover have "?f (?g k) = k"
      using unflat4 [OF lt(4) lt(2) lt(3), of "k div (H * W * C)"] reflat4 [of k H W C]
      by simp
    ultimately show ?thesis by simp
  qed
  show "\<forall>a\<in>{0..<B * C * H * W}. ?g (?f a) = a" using fg by simp
  show "\<forall>a'\<in>{0..<B * C * H * W}. ?f (?g a') = a'" using gf by simp
  show "?f ` {0..<B * C * H * W} \<subseteq> {0..<B * C * H * W}" using fg by auto
  show "?g ` {0..<B * C * H * W} \<subseteq> {0..<B * C * H * W}" using gf by auto
qed

lemma mset_permute_0312:
  assumes "permute_0312 g = Inr p" "contiguous g"
  shows "mset (data p) = mset (data g)"
proof -
  from assms(1) obtain B H W C where g: "shape g = [B, H, W, C]"
    and p: "p = tabulate4 B C H W (\<lambda>b c i j. at4 g b i j c)"
    by (auto simp: permute_0312_def split: list.splits)
  have len: "length (data g) = B * C * H * W"
    using assms(2) g by (simp add: contiguous_def numel_def mult_ac)
  have "data p = map (\<lambda>k. data g ! (((k div (C * H * W) * H + k div W mod H) * W + k mod W) * C + k div (H * W) mod C)) [0..<length (data g)]"
    unfolding p len using g by (simp add: tabulate4_def at4_def)
  then show ?thesis
    using mset_map_nth_bij [of _ "data g"] permute_bij [of C H W B] len by simp
qed

text \<open>
  Claim C10. The reshape of the token sequence to the grid is row-major: for an input of
  shape \<open>(batch, grid_h * grid_w, C)\<close> the view and the permutation both succeed, the view
  keeps the elements as they are, token \<open>i\<close> lies at grid row \<open>i div grid_w\<close> and grid column
  \<open>i mod grid_w\<close> (channel-last after the view, channel-first after the permutation),
  and the permuted tensor holds exactly the elements of the input, each as often as the
  input does: none reordered within the grid, duplicated or dropped.
\<close>

theorem reshape_row_major:
  assumes "shape x = [B, gh * gw, C]" and "contiguous x"
    and "b < B" and "i < gh * gw" and "c < C"
  shows "\<exists>g p. view x [B, gh, gw, C] = Inr g \<and> permute_0312 g = Inr p
           \<and> shape g = [B, gh, gw, C] \<and> data g = data x
           \<and> at4 g b (i div gw) (i mod gw) c = at3 x b i c
           \<and> shape p = [B, C, gh, gw]
           \<and> at4 p b c (i div gw) (i mod gw) = at3 x b i c
           \<and> mset (data p) = mset (data x)"
proof -
  let ?g = "x\<lparr>shape := [B, gh, gw, C]\<rparr>"
  let ?p = "tabulate4 B C gh gw (\<lambda>b c i j. at4 ?g b i j c)"
  have v: "view x [B, gh, gw, C] = Inr ?g"
    using assms(1) by (simp add: view_def numel_def mult.assoc)
  have p: "permute_0312 ?g = Inr ?p"
    by (simp add: permute_0312_def)
  have cg: "contiguous ?g"
    using assms(1,2) by (simp add: contiguous_def numel_def mult.assoc)
  have gw: "0 < gw" using assms(4) by (auto intro: Nat.gr0I)
  have r: "i div gw < gh" using assms(4) by (simp add: less_mult_imp_div_less)
  have s: "i mod gw < gw" using gw by simp
  have a: "at4 ?g b (i div gw) (i mod gw) c = at3 x b i c"
    by (rule at4_view_row_major [OF assms(1)])
  have "at4 ?p b c (i div gw) (i mod gw) = at4 ?g b (i div gw) (i mod gw) c"
    by (rule at4_tabulate4 [OF assms(3) assms(5) r s])
  moreover have "mset (data ?p) = mset (data ?g)"
    by (rule mset_permute_0312 [OF p cg])
  ultimately show ?thesis using v p a by (simp add: shape_tabulate4)
qed

theorem reshape_row_major_witness:
  "\<exists>g p. view \<lparr>shape = [1, 6, 2], data = [10, 11, 20, 21, 30, 31, 40, 41, 50, 51, 60, 61]\<rparr>
            [1, 2, 3, 2] = Inr g
         \<and> permute_0312 g = Inr p
         \<and> at4 g 0 (4 div 3) (4 mod 3) 1 = at3 \<lparr>shape = [1, 6, 2],
              data = [10, 11, 20, 21, 30, 31, 40, 41, 50, 51, 60, 61]\<rparr> 0 4 1
         \<and> at4 p 0 1 (4 div 3) (4 mod 3) = 51
         \<and> mset (data p) = mset [10, 11, 20, 21, 30, 31, 40, 41, 50, 51, 60, 61]"
  using reshape_row_major [of "\<lparr>shape = [1, 6, 2],
      data = [10, 11, 20, 21, 30, 31, 40, 41, 50, 51, 60, 61]\<rparr>" 1 2 3 2 0 4 1]
  by (simp add: contiguous_def numel_def at3_def) blast

section \<open>The three stages\<close>

lemma nn_Conv2d_fields:
  "\<exists>m. nn_Conv2d cin cout k p v = Conv2d m \<and> in_channels m = cin \<and> out_channels m = cout
       \<and> kernel_size m = k \<and> padding m = p"
  by (simp add: nn_Conv2d_def)

lemma stage_trace:
  assumes "Sequential_forward [Conv2d m, ReLU, Upsample 2 Nearest] x = Inr y"
    and "shape x = [B, C, H, W]" and "kernel_size m = 3" and "padding m = 1"
  shows "\<exists>u. conv2d_forward m x = Inr u \<and> shape u = [B, out_channels m, H, W]
           \<and> upsample_nearest 2 (relu u) = Inr y
           \<and> shape y = [B, out_channels m, 2 * H, 2 * W]"
proof -
  have "bind_result (conv2d_forward m x) (\<lambda>u. upsample_nearest 2 (relu u)) = Inr y"
    using assms(1) by (cases "conv2d_forward m x") (simp_all add: bind_result_def split: sum.splits)
  from bind_result_Inr [OF this] obtain u where u: "conv2d_forward m x = Inr u"
    and y: "upsample_nearest 2 (relu u) = Inr y" by blast
  have su: "shape u = [B, out_channels m, H, W]"
    using u assms(2-4) by (auto simp: conv2d_forward_def shape_tabulate4 split: if_splits)
  have "shape y = [B, out_channels m, 2 * H, 2 * W]"
    using y su by (auto simp: upsample_nearest_def shape_relu shape_tabulate4 mult.commute
        split: if_splits)
  with u y su show ?thesis by blast
qed

text \<open>
  Claim C4. The decoder applies exactly three stages, in order. Each of the three layers
  is the list convolution, nonlinearity, 2\<times> nearest-neighbour upsample; the convolutions
  have kernel size 3 and padding 1, from \<open>embed_dim\<close> to \<open>embed_dim\<close> channels in stages 1
  and 2 and from \<open>embed_dim\<close> to 3 channels in stage 3. Every successful forward pass is
  the view, the permutation, and then these nine operations: each convolution keeps the
  spatial size (same padding), each upsample doubles it, and the result of the last
  upsample is the result of forward.
\<close>

theorem forward_three_stages:
  assumes "forward (CNNDecoder_init embed_dim img_h img_w v1 v2 v3) x = Inr y"
  shows "\<exists>m1 m2 m3 B g x0 u1 x1 u2 x2 u3.
      layer1 (CNNDecoder_init embed_dim img_h img_w v1 v2 v3) = [Conv2d m1, ReLU, Upsample 2 Nearest]
    \<and> layer2 (CNNDecoder_init embed_dim img_h img_w v1 v2 v3) = [Conv2d m2, ReLU, Upsample 2 Nearest]
    \<and> layer3 (CNNDecoder_init embed_dim img_h img_w v1 v2 v3) = [Conv2d m3, ReLU, Upsample 2 Nearest]
    \<and> in_channels m1 = embed_dim \<and> out_channels m1 = embed_dim
    \<and> kernel_size m1 = 3 \<and> padding m1 = 1
    \<and> in_channels m2 = embed_dim \<and> out_channels m2 = embed_dim
    \<and> kernel_size m2 = 3 \<and> padding m2 = 1
    \<and> in_channels m3 = embed_dim \<and> out_channels m3 = 3
    \<and> kernel_size m3 = 3 \<and> padding m3 = 1
    \<and> view x [B, img_h div 8, img_w div 8, embed_dim] = Inr g
    \<and> permute_0312 g = Inr x0
    \<and> shape x0 = [B, embed_dim, img_h div 8, img_w div 8]
    \<and> conv2d_forward m1 x0 = Inr u1
    \<and> shape u1 = [B, embed_dim, img_h div 8, img_w div 8]
    \<and> upsample_nearest 2 (relu u1) = Inr x1
    \<and> shape x1 = [B, embed_dim, 2 * (img_h div 8), 2 * (img_w div 8)]
    \<and> conv2d_forward m2 x1 = Inr u2
    \<and> shape u2 = [B, embed_dim, 2 * (img_h div 8), 2 * (img_w div 8)]
    \<and> upsample_nearest 2 (relu u2) = Inr x2
    \<and> shape x2 = [B, embed_dim, 4 * (img_h div 8), 4 * (img_w div 8)]
    \<and> conv2d_forward m3 x2 = Inr u3
    \<and> shape u3 = [B, 3, 4 * (img_h div 8), 4 * (img_w div 8)]
    \<and> upsample_nearest 2 (relu u3) = Inr y
    \<and> shape y = [B, 3, 8 * (img_h div 8), 8 * (img_w div 8)]"
proof -
  let ?gh = "img_h div 8" and ?gw = "img_w div 8"
  let ?d = "CNNDecoder_init embed_dim img_h img_w v1 v2 v3"
  obtain m1 where m1: "nn_Conv2d embed_dim embed_dim 3 1 v1 = Conv2d m1" "in_channels m1 = embed_dim"
    "out_channels m1 = embed_dim" "kernel_size m1 = 3" "padding m1 = 1"
    using nn_Conv2d_fields by blast
  obtain m2 where m2: "nn_Conv2d embed_dim embed_dim 3 1 v2 = Conv2d m2" "in_channels m2 = embed_dim"
    "out_channels m2 = embed_dim" "kernel_size m2 = 3" "padding m2 = 1"
    using nn_Conv2d_fields by blast
  obtain m3 where m3: "nn_Conv2d embed_dim 3 3 1 v3 = Conv2d m3" "in_channels m3 = embed_dim"
    "out_channels m3 = 3" "kernel_size m3 = 3" "padding m3 = 1"
    using nn_Conv2d_fields by blast
  have l1: "layer1 ?d = [Conv2d m1, ReLU, Upsample 2 Nearest]"
    and l2: "layer2 ?d = [Conv2d m2, ReLU, Upsample 2 Nearest]"
    and l3: "layer3 ?d = [Conv2d m3, ReLU, Upsample 2 Nearest]"
    using m1(1) m2(1) m3(1) by (simp_all add: CNNDecoder_init_def)
  from forward_inv [OF assms] obtain B N where x: "shape x = [B, N, embed_dim]" by blast
  note f = assms [unfolded forward_unfold [OF x]]
  from bind_result_Inr [OF f] obtain g where g: "view x [B, grid_h ?d, grid_w ?d, embed_dim] = Inr g"
    and f1: "bind_result (permute_0312 g) (\<lambda>x.
          bind_result (Sequential_forward (layer1 ?d) x) (\<lambda>x.
          bind_result (Sequential_forward (layer2 ?d) x) (\<lambda>x.
          Sequential_forward (layer3 ?d) x))) = Inr y" by blast
  have g': "view x [B, ?gh, ?gw, embed_dim] = Inr g"
    using g by (simp add: CNNDecoder_init_def)
  have sg: "shape g = [B, ?gh, ?gw, embed_dim]"
    using view_Inr [OF g'] by simp
  from bind_result_Inr [OF f1] obtain x0 where x0: "permute_0312 g = Inr x0"
    and f2: "bind_result (Sequential_forward (layer1 ?d) x0) (\<lambda>x.
          bind_result (Sequential_forward (layer2 ?d) x) (\<lambda>x.
          Sequential_forward (layer3 ?d) x)) = Inr y" by blast
  from x0 sg have s0: "shape x0 = [B, embed_dim, ?gh, ?gw]"
    by (auto simp: permute_0312_def shape_tabulate4)
  from bind_result_Inr [OF f2] obtain x1 where x1: "Sequential_forward (layer1 ?d) x0 = Inr x1"
    and f3: "bind_result (Sequential_forward (layer2 ?d) x1) (\<lambda>x.
          Sequential_forward (layer3 ?d) x) = Inr y" by blast
  from bind_result_Inr [OF f3] obtain x2 where x2: "Sequential_forward (layer2 ?d) x1 = Inr x2"
    and f4: "Sequential_forward (layer3 ?d) x2 = Inr y" by blast
  from stage_trace [OF x1 [unfolded l1] s0 m1(4,5)] obtain u1 where
    t1: "conv2d_forward m1 x0 = Inr u1" "shape u1 = [B, embed_dim, ?gh, ?gw]"
      "upsample_nearest 2 (relu u1) = Inr x1" "shape x1 = [B, embed_dim, 2 * ?gh, 2 * ?gw]"
    using m1(3) by auto
  from stage_trace [OF x2 [unfolded l2] t1(4) m2(4,5)] obtain u2 where
    t2: "conv2d_forward m2 x1 = Inr u2" "shape u2 = [B, embed_dim, 2 * ?gh, 2 * ?gw]"
      "upsample_nearest 2 (relu u2) = Inr x2" "shape x2 = [B, embed_dim, 4 * ?gh, 4 * ?gw]"
    using m2(3) by auto
  from stage_trace [OF f4 [unfolded l3] t2(4) m3(4,5)] obtain u3 where
    t3: "conv2d_forward m3 x2 = Inr u3" "shape u3 = [B, 3, 4 * ?gh, 4 * ?gw]"
      "upsample_nearest 2 (relu u3) = Inr y" "shape y = [B, 3, 8 * ?gh, 8 * ?gw]"
    using m3(3) by auto
  show ?thesis
    using l1 l2 l3 m1(2-5) m2(2-5) m3(2-5) g' x0 s0 t1 t2 t3 by blast
qed

theorem forward_three_stages_witness:
  "\<exists>y u3. forward (CNNDecoder_init 4 16 16 (constant_values 1 0) (constant_values 1 0)
          (constant_values 1 0)) (full [2, 4, 4] 1) = Inr y
       \<and> shape u3 = [2, 3, 8, 8]
       \<and> upsample_nearest 2 (relu u3) = Inr y
       \<and> shape y = [2, 3, 16, 16]"
proof -
  have "shape (full [2, 4, 4] 1) = [2, (16 div 8) * (16 div 8), 4]"
    by (simp add: shape_full)
  from forward_ok [OF this, of "constant_values 1 0" "constant_values 1 0" "constant_values 1 0"]
  obtain y where y: "forward (CNNDecoder_init 4 16 16 (constant_values 1 0)
      (constant_values 1 0) (constant_values 1 0)) (full [2, 4, 4] 1) = Inr y"
      and sy: "shape y = [2, 3, 16, 16]"
    by auto
  from forward_three_stages [OF y] obtain B u3 where
    "shape u3 = [B, 3, 4 * (16 div 8), 4 * (16 div 8)]" "upsample_nearest 2 (relu u3) = Inr y"
    "shape y = [B, 3, 8 * (16 div 8), 8 * (16 div 8)]"
    by blast
  with y sy show ?thesis by auto
qed

section \<open>Independence of the batch elements\<close>



























section \<open>Output shape of the attention decoder\<close>

lemma shape_tabulate3: "shape (tabulate3 B T E f) = [B, T, E]"
  by (simp add: tabulate3_def)

lemma contiguous_tabulate3: "contiguous (tabulate3 B T E f)"
  by (simp add: contiguous_def numel_def tabulate3_def mult.assoc)

lemma linear_forward_ok:
  assumes "shape x = [B, T, E]" "in_features m = E"
  shows "\<exists>y. linear_forward m x = Inr y \<and> shape y = [B, T, out_features m] \<and> contiguous y"
  using assms by (simp add: linear_forward_def shape_tabulate3 contiguous_tabulate3)

lemma layer_norm_forward_ok:
  assumes "shape x = [B, T, E]" "normalized_shape m = E"
  shows "\<exists>y. layer_norm_forward m x = Inr y \<and> shape y = [B, T, E]"
  using assms by (simp add: layer_norm_forward_def shape_tabulate3)

lemma add_ok:
  assumes "shape x = [B, T, E]" "shape y = [B, T, E]"
  shows "\<exists>z. add x y = Inr z \<and> shape z = [B, T, E]"
  using assms by (simp add: add_def shape_tabulate3)

lemma multihead_attention_forward_ok:
  assumes "shape query = [B, T, E]" "shape key = [B, S, E]" "shape val = [B, S, E]"
    and "attention_sizes E H m" "0 < H" "(E div H) * H = E"
    and "attn_mask_ok attn_mask B H T S" "key_padding_mask_ok key_padding_mask B S"
  shows "\<exists>y. multihead_attention_forward m query key val attn_mask key_padding_mask = Inr y
           \<and> shape y = [B, T, E]"
proof -
  have "\<exists>y. linear_forward (out_proj m) (tabulate3 B T E
       (attention_output m query key val attn_mask key_padding_mask)) = Inr y
       \<and> shape y = [B, T, out_features (out_proj m)] \<and> contiguous y"
    using assms(4) by (intro linear_forward_ok) (simp_all add: shape_tabulate3 attention_sizes_def)
  then show ?thesis
    using assms by (auto simp: multihead_attention_forward_def attention_sizes_def head_dim_def)
qed

lemma ff_block_ok:
  assumes "shape x = [B, T, E]" "layer_sizes E H F l"
  shows "\<exists>y. ff_block l x = Inr y \<and> shape y = [B, T, E]"
proof -
  from linear_forward_ok [OF assms(1), of "linear1 l"] assms(2)
  obtain h where h: "linear_forward (linear1 l) x = Inr h" "shape h = [B, T, F]"
    by (auto simp: layer_sizes_def)
  have "shape (relu h) = [B, T, F]" using h(2) by (simp add: shape_relu)
  from linear_forward_ok [OF this, of "linear2 l"] assms(2)
  obtain y where "linear_forward (linear2 l) (relu h) = Inr y" "shape y = [B, T, E]"
    by (auto simp: layer_sizes_def)
  then show ?thesis using h(1) by (simp add: ff_block_def bind_result_def)
qed

lemma TransformerDecoderLayer_forward_ok:
  assumes tgt: "shape tgt = [B, T, E]" and mem: "shape memory = [B, S, E]"
    and l: "layer_sizes E H F l"
    and m: "attn_mask_ok tgt_mask B H T T" "attn_mask_ok memory_mask B H T S"
      "key_padding_mask_ok tkpm B T" "key_padding_mask_ok mkpm B S"
  shows "\<exists>y. TransformerDecoderLayer_forward l tgt memory tgt_mask memory_mask tkpm mkpm = Inr y
           \<and> shape y = [B, T, E]"
proof -
  from l have sz: "0 < H" "(E div H) * H = E" "attention_sizes E H (self_attn l)"
      "attention_sizes E H (multihead_attn l)" "normalized_shape (norm1 l) = E"
      "normalized_shape (norm2 l) = E" "normalized_shape (norm3 l) = E"
    by (simp_all add: layer_sizes_def)
  from layer_norm_forward_ok [OF tgt sz(5)] obtain n1 where
    n1: "layer_norm_forward (norm1 l) tgt = Inr n1" "shape n1 = [B, T, E]" by blast
  from multihead_attention_forward_ok [OF n1(2) n1(2) n1(2) sz(3,1,2) m(1,3)] obtain a1 where
    a1: "sa_block l n1 tgt_mask tkpm = Inr a1" "shape a1 = [B, T, E]"
    by (auto simp: sa_block_def)
  from add_ok [OF tgt a1(2)] obtain x1 where
    x1: "add tgt a1 = Inr x1" "shape x1 = [B, T, E]" by blast
  from layer_norm_forward_ok [OF x1(2) sz(6)] obtain n2 where
    n2: "layer_norm_forward (norm2 l) x1 = Inr n2" "shape n2 = [B, T, E]" by blast
  from multihead_attention_forward_ok [OF n2(2) mem mem sz(4,1,2) m(2,4)] obtain a2 where
    a2: "mha_block l n2 memory memory_mask mkpm = Inr a2" "shape a2 = [B, T, E]"
    by (auto simp: mha_block_def)
  from add_ok [OF x1(2) a2(2)] obtain x2 where
    x2: "add x1 a2 = Inr x2" "shape x2 = [B, T, E]" by blast
  from layer_norm_forward_ok [OF x2(2) sz(7)] obtain n3 where
    n3: "layer_norm_forward (norm3 l) x2 = Inr n3" "shape n3 = [B, T, E]" by blast
  from ff_block_ok [OF n3(2) l] obtain a3 where
    a3: "ff_block l n3 = Inr a3" "shape a3 = [B, T, E]" by blast
  from add_ok [OF x2(2) a3(2)] obtain y where
    y: "add x2 a3 = Inr y" "shape y = [B, T, E]" by blast
  show ?thesis
    using n1(1) a1(1) x1(1) n2(1) a2(1) x2(1) n3(1) a3(1) y
    by (simp add: TransformerDecoderLayer_forward_def bind_result_def)
qed

lemma layers_forward_ok:
  assumes "shape tgt = [B, T, E]" and mem: "shape memory = [B, S, E]"
    and "list_all (layer_sizes E H F) ls"
    and m: "attn_mask_ok tgt_mask B H T T" "attn_mask_ok memory_mask B H T S"
      "key_padding_mask_ok tkpm B T" "key_padding_mask_ok mkpm B S"
  shows "\<exists>y. layers_forward ls tgt memory tgt_mask memory_mask tkpm mkpm = Inr y
           \<and> shape y = [B, T, E]"
  using assms(1,3)
proof (induction ls arbitrary: tgt)
  case Nil
  then show ?case by simp
next
  case (Cons l ls)
  from Cons.prems(2) have l: "layer_sizes E H F l" and ls: "list_all (layer_sizes E H F) ls"
    by simp_all
  from TransformerDecoderLayer_forward_ok [OF Cons.prems(1) mem l m] obtain y where
    y: "TransformerDecoderLayer_forward l tgt memory tgt_mask memory_mask tkpm mkpm = Inr y"
      "shape y = [B, T, E]" by blast
  from Cons.IH [OF y(2) ls] show ?case using y(1) by (simp add: bind_result_def)
qed

lemma nn_TransformerDecoderLayer_sizes:
  assumes "nn_TransformerDecoderLayer d_model nhead dim_feedforward dropout v = Inr l"
  shows "layer_sizes d_model nhead dim_feedforward l"
  using assms
  by (auto simp: nn_TransformerDecoderLayer_def layer_sizes_def attention_sizes_def
      nn_MultiheadAttention_def nn_Linear_def nn_LayerNorm_def split: if_splits)

lemma TransformerDecoder_init_sizes:
  assumes "TransformerDecoder_init d_model nhead dim_feedforward dropout n_layers v = Inr self"
  shows "list_all (layer_sizes d_model nhead dim_feedforward) (transformer_decoder self)
         \<and> length (transformer_decoder self) = n_layers"
proof -
  from bind_result_Inr [OF assms [unfolded TransformerDecoder_init_def]] obtain l where
    l: "nn_TransformerDecoderLayer d_model nhead dim_feedforward dropout v = Inr l"
    and s: "self = \<lparr>decoder_layer = l, transformer_decoder = replicate n_layers l\<rparr>" by auto
  show ?thesis using nn_TransformerDecoderLayer_sizes [OF l] s
    by (simp add: list_all_iff)
qed

lemma TransformerDecoder_init_ok:
  assumes "0 < d_model" "0 < nhead" "nhead dvd d_model"
  shows "\<exists>self. TransformerDecoder_init d_model nhead dim_feedforward dropout n_layers v = Inr self"
  using assms
  by (auto simp: TransformerDecoder_init_def nn_TransformerDecoderLayer_def bind_result_def)

text \<open>
  Claim C5. For every legal pair of target tokens \<open>(batch, tgt_len, embed_dim)\<close> and
  memory \<open>(batch, src_len, embed_dim)\<close> whose embedding size is the decoder's, with every
  mask absent or of its documented shape, the forward pass returns a tensor of exactly
  the shape of the target tokens. The decoder is any one whose stack is not empty and
  whose layers have the sizes the constructor gives them.
\<close>

theorem TransformerDecoder_forward_shape:
  assumes "list_all (layer_sizes d_model nhead dim_feedforward) (transformer_decoder self)"
    and "transformer_decoder self \<noteq> []"
    and "shape target_tokens = [batch, tgt_len, d_model]"
    and "shape memory = [batch, src_len, d_model]"
    and "attn_mask_ok tgt_mask batch nhead tgt_len tgt_len"
    and "attn_mask_ok memory_mask batch nhead tgt_len src_len"
    and "key_padding_mask_ok tgt_key_padding_mask batch tgt_len"
    and "key_padding_mask_ok memory_key_padding_mask batch src_len"
  shows "\<exists>out. TransformerDecoder_forward self target_tokens memory tgt_mask memory_mask
             tgt_key_padding_mask memory_key_padding_mask = Inr out
           \<and> shape out = shape target_tokens"
  using layers_forward_ok [OF assms(3,4,1,5-8)] assms(2,3)
  by (simp add: TransformerDecoder_forward_def nn_TransformerDecoder_forward_def)

theorem TransformerDecoder_forward_shape_witness:
  "\<exists>self out. TransformerDecoder_init 4 2 8 (1 / 10) 2 (constant_layer_values 1 0) = Inr self
       \<and> TransformerDecoder_forward self (full [2, 3, 4] 1) (full [2, 5, 4] 1)
            None None None None = Inr out
       \<and> shape out = [2, 3, 4]"
proof -
  obtain self where
    s: "TransformerDecoder_init 4 2 8 (1 / 10) 2 (constant_layer_values 1 0) = Inr self"
    using TransformerDecoder_init_ok [of 4 2 8 "1 / 10" 2 "constant_layer_values 1 0"] by auto
  note z = TransformerDecoder_init_sizes [OF s]
  have ne: "transformer_decoder self \<noteq> []" using z by auto
  from TransformerDecoder_forward_shape [OF conjunct1 [OF z] ne,
      of "full [2, 3, 4] 1" 2 3 "full [2, 5, 4] 1" 5 None None None None]
  show ?thesis using s
    by (simp add: shape_full attn_mask_ok_def key_padding_mask_ok_def)
qed

section \<open>Independence of the batch elements in the attention decoder\<close>











































section \<open>Repeated invocations\<close>












lemma tensor_eta: "\<lparr>shape = shape t, data = data t\<rparr> = (t :: tensor)"
  by simp






end
